theory Spec2Isabelle
  imports Complex_Main
begin

section \<open>The MOE provider (lib/ai/providers/moe.ts)\<close>

text \<open>
  A shallow embedding of the TypeScript client of the MOE service: the health check
  \<open>checkMOEAvailability\<close>, the processing call \<open>processMOEText\<close>, the helper
  \<open>extractMessageText\<close> and the provider's \<open>processMOERequest\<close>, together with the
  three middlewares of lib/ai/providers.ts that call it.
\<close>

subsection \<open>JavaScript values\<close>

text \<open>
  The source types messages, options and response bodies as \<open>any\<close>. The values are the
  ones JSON and object literals build: \<open>undefined\<close>, \<open>null\<close>, booleans, numbers
  (\<open>JNum\<close> for the finite ones, \<open>JNaN\<close>), strings, arrays and plain objects. An object
  is the list of its own properties in insertion order, one entry for each key.
\<close>

datatype jsval =
    JUndefined
  | JNull
  | JBool bool
  | JNum rat
  | JNaN
  | JStr string
  | JArr "jsval list"
  | JObj "(string \<times> jsval) list"

text \<open>
  What a rejected promise or a \<open>throw\<close> carries. \<open>MOEError\<close> is the class of the
  module (message and optional status); \<open>DOMException\<close> has a name and a message (an
  aborted fetch rejects with the name \<open>AbortError\<close>); \<open>JsError\<close> is any other
  \<open>Error\<close> with its constructor's name (\<open>Error\<close>, \<open>TypeError\<close>, \<open>SyntaxError\<close>)
  and message.
\<close>

datatype js_exception =
    MOEError string "nat option"
  | DOMException string string
  | JsError string string

fun error_message :: "js_exception \<Rightarrow> string" where
  "error_message (MOEError m s) = m"
| "error_message (DOMException n m) = m"
| "error_message (JsError n m) = m"

text \<open>\<open>ToBoolean\<close>: the falsy values are \<open>undefined\<close>, \<open>null\<close>, \<open>false\<close>, zero, NaN and
  the empty string.\<close>

fun to_boolean :: "jsval \<Rightarrow> bool" where
  "to_boolean JUndefined = False"
| "to_boolean JNull = False"
| "to_boolean (JBool b) = b"
| "to_boolean (JNum q) = (q \<noteq> 0)"
| "to_boolean JNaN = False"
| "to_boolean (JStr s) = (s \<noteq> [])"
| "to_boolean (JArr xs) = True"
| "to_boolean (JObj kvs) = True"

text \<open>
  Property access \<open>v.name\<close>, for the names the module reads (\<open>content\<close>, \<open>role\<close>,
  \<open>status\<close>, \<open>models_loaded\<close>, \<open>result\<close>, \<open>expert_used\<close>, \<open>confidence\<close>,
  \<open>processing_time\<close>, \<open>usedFallback\<close>), none of which a built-in prototype defines:
  on \<open>undefined\<close> and \<open>null\<close> it throws a TypeError, on an object it is the own property
  or \<open>undefined\<close>, on every other value it is \<open>undefined\<close>.
\<close>

fun get_prop :: "jsval \<Rightarrow> string \<Rightarrow> js_exception + jsval" where
  "get_prop JUndefined name =
     Inl (JsError ''TypeError'' (''Cannot read properties of undefined (reading '' @ name @ '')''))"
| "get_prop JNull name =
     Inl (JsError ''TypeError'' (''Cannot read properties of null (reading '' @ name @ '')''))"
| "get_prop (JObj kvs) name = (case map_of kvs name of None \<Rightarrow> Inr JUndefined | Some v \<Rightarrow> Inr v)"
| "get_prop v name = Inr JUndefined"

text \<open>\<open>typeof v === 'string'\<close> and \<open>Array.isArray(v)\<close>.\<close>

fun typeof_is_string :: "jsval \<Rightarrow> bool" where
  "typeof_is_string (JStr s) = True"
| "typeof_is_string v = False"

fun isArray :: "jsval \<Rightarrow> bool" where
  "isArray (JArr xs) = True"
| "isArray v = False"

text \<open>\<open>v === 'literal'\<close>: strict equality with a string literal holds for that string only.\<close>

definition strict_eq_str :: "jsval \<Rightarrow> string \<Rightarrow> bool" where
  "strict_eq_str v s = (v = JStr s)"

text \<open>The decimal digits of a status code, for the template literal in the error message.\<close>

definition digit_char :: "nat \<Rightarrow> char" where
  "digit_char d = char_of (d + 48)"

function string_of_nat :: "nat \<Rightarrow> string" where
  "string_of_nat n =
     (if 10 \<le> n then string_of_nat (n div 10) @ [digit_char (n mod 10)] else [digit_char n])"
  by pat_completeness auto
termination
  by (relation "measure id") auto

declare string_of_nat.simps [simp del]

text \<open>
  \<open>Array.prototype.join(sep)\<close>: the elements' string forms with the separator between
  them. \<open>undefined\<close> and \<open>null\<close> elements give the empty string. The module joins
  arrays of strings only; the string forms of numbers, arrays and objects are not
  computed and each is represented by a fixed tag.
\<close>

fun join_strings :: "string \<Rightarrow> string list \<Rightarrow> string" where
  "join_strings sep [] = []"
| "join_strings sep [s] = s"
| "join_strings sep (s # t # ss) = s @ sep @ join_strings sep (t # ss)"

fun element_string :: "jsval \<Rightarrow> string" where
  "element_string (JStr s) = s"
| "element_string JUndefined = []"
| "element_string JNull = []"
| "element_string (JBool b) = (if b then ''true'' else ''false'')"
| "element_string JNaN = ''NaN''"
| "element_string (JNum q) = ''[number]''"
| "element_string (JArr xs) = ''[array]''"
| "element_string (JObj kvs) = ''[object Object]''"

definition js_join :: "jsval list \<Rightarrow> string \<Rightarrow> string" where
  "js_join xs sep = join_strings sep (map element_string xs)"

subsection \<open>extractMessageText\<close>

text \<open>
  The helper reads \<open>message.content\<close> up to three times; the reads are guarded by
  \<open>!message\<close>, and every read that throws would make the call throw.
\<close>

definition extractMessageText :: "jsval \<Rightarrow> js_exception + string" where
  "extractMessageText message =
     (if \<not> to_boolean message then Inr []
      else case get_prop message ''content'' of
        Inl e \<Rightarrow> Inl e
      | Inr content \<Rightarrow>
          if \<not> to_boolean content then Inr []
          else if typeof_is_string content then
            (case content of JStr s \<Rightarrow> Inr s | _ \<Rightarrow> Inr [])
          else if isArray content then
            (case content of
               JArr parts \<Rightarrow> Inr (js_join (filter typeof_is_string parts) '' '')
             | _ \<Rightarrow> Inr [])
          else Inr [])"

subsection \<open>The network and the console\<close>

text \<open>
  The module's constants, read from the environment when the module is loaded.
\<close>

record config =
  MOE_API_BASE_URL :: string
  MOE_TIMEOUT_MS :: int

text \<open>
  A call of \<open>fetch\<close>: the URL, the method, the headers, the value handed to
  \<open>JSON.stringify\<close> for the body, and the delay after which the timer aborts the
  controller whose signal the call carries.
\<close>

record request =
  url :: string
  http_method :: string
  headers :: "(string \<times> string) list"
  body :: "jsval option"
  timeout_ms :: int

text \<open>
  A response: its status line and what \<open>response.json()\<close> settles to (a parsed value,
  or the exception of a body that is not JSON). \<open>response.ok\<close> is a status in 200..299.
\<close>

record response =
  status :: nat
  statusText :: string
  json :: "js_exception + jsval"

definition ok :: "response \<Rightarrow> bool" where
  "ok r = (200 \<le> status r \<and> status r \<le> 299)"

text \<open>
  \<open>fetch\<close> settles to a response, or rejects: with a DOMException named
  \<open>AbortError\<close> when the timer fired first, with a TypeError when the connection failed.
\<close>

datatype fetch_outcome = Rejected js_exception | Resolved response

datatype console_entry = ConsoleError string js_exception | ConsoleWarn string

text \<open>
  The world outside the module: the remote side decides the outcome of each call from
  the request and the number of calls made before it; \<open>sent\<close> is the list of the calls
  made so far, oldest first; \<open>console\<close> is what was logged.
\<close>

record world =
  server :: "request \<Rightarrow> nat \<Rightarrow> fetch_outcome"
  sent :: "request list"
  console :: "console_entry list"

definition fetch :: "request \<Rightarrow> world \<Rightarrow> fetch_outcome \<times> world" where
  "fetch r w = (server w r (length (sent w)), w\<lparr>sent := sent w @ [r]\<rparr>)"

definition console_log :: "console_entry \<Rightarrow> world \<Rightarrow> world" where
  "console_log entry w = w\<lparr>console := console w @ [entry]\<rparr>"

subsection \<open>checkMOEAvailability\<close>

definition health_request :: "config \<Rightarrow> request" where
  "health_request cfg =
     \<lparr>url = MOE_API_BASE_URL cfg @ ''/health'', http_method = ''GET'', headers = [],
      body = None, timeout_ms = 5000\<rparr>"

text \<open>
  The body of the \<open>try\<close> block: \<open>Inl\<close> is an exception thrown inside it. The last
  line returns \<open>data.status === 'healthy' && data.models_loaded\<close>: \<open>false\<close> when the
  comparison fails, and otherwise the value of \<open>data.models_loaded\<close> itself, whatever
  its type.
\<close>

definition checkMOEAvailability_try :: "config \<Rightarrow> world \<Rightarrow> (js_exception + jsval) \<times> world" where
  "checkMOEAvailability_try cfg w =
     (case fetch (health_request cfg) w of
        (Rejected e, w1) \<Rightarrow> (Inl e, w1)
      | (Resolved resp, w1) \<Rightarrow>
          if \<not> ok resp then (Inr (JBool False), w1)
          else (case json resp of
                  Inl e \<Rightarrow> (Inl e, w1)
                | Inr data \<Rightarrow>
                    (case get_prop data ''status'' of
                       Inl e \<Rightarrow> (Inl e, w1)
                     | Inr st \<Rightarrow>
                         if strict_eq_str st ''healthy''
                         then (get_prop data ''models_loaded'', w1)
                         else (Inr (JBool False), w1))))"

text \<open>The \<open>catch\<close> block logs the exception and returns \<open>false\<close>.\<close>

definition checkMOEAvailability :: "config \<Rightarrow> world \<Rightarrow> (js_exception + jsval) \<times> world" where
  "checkMOEAvailability cfg w =
     (case checkMOEAvailability_try cfg w of
        (Inl error, w1) \<Rightarrow>
          (Inr (JBool False), console_log (ConsoleError ''MOE health check failed:'' error) w1)
      | (Inr v, w1) \<Rightarrow> (Inr v, w1))"

subsection \<open>processMOEText\<close>

text \<open>A parameter default applies when the argument is \<open>undefined\<close>.\<close>

definition default_to :: "jsval \<Rightarrow> jsval \<Rightarrow> jsval" where
  "default_to v d = (if v = JUndefined then d else v)"

definition process_request :: "config \<Rightarrow> string \<Rightarrow> jsval \<Rightarrow> jsval \<Rightarrow> request" where
  "process_request cfg text task options =
     \<lparr>url = MOE_API_BASE_URL cfg @ ''/process/sync'', http_method = ''POST'',
      headers = [(''Content-Type'', ''application/json'')],
      body = Some (JObj [(''text'', JStr text), (''task'', task), (''options'', options)]),
      timeout_ms = MOE_TIMEOUT_MS cfg\<rparr>"

definition processMOEText_try ::
  "config \<Rightarrow> string \<Rightarrow> jsval \<Rightarrow> jsval \<Rightarrow> world \<Rightarrow> (js_exception + jsval) \<times> world" where
  "processMOEText_try cfg text task options w =
     (case fetch (process_request cfg text task options) w of
        (Rejected e, w1) \<Rightarrow> (Inl e, w1)
      | (Resolved resp, w1) \<Rightarrow>
          if \<not> ok resp then
            (Inl (MOEError (''MOE API returned '' @ string_of_nat (status resp) @ '': ''
                            @ statusText resp) (Some (status resp))), w1)
          else (json resp, w1))"

text \<open>
  The \<open>catch\<close> block rethrows: a \<open>MOEError\<close> as it is, a DOMException named
  \<open>AbortError\<close> as the timeout error with status 408, anything else wrapped with its
  message. Every path through it throws a \<open>MOEError\<close>.
\<close>

fun is_abort_error :: "js_exception \<Rightarrow> bool" where
  "is_abort_error (DOMException n m) = (n = ''AbortError'')"
| "is_abort_error e = False"

fun is_MOEError :: "js_exception \<Rightarrow> bool" where
  "is_MOEError (MOEError m s) = True"
| "is_MOEError e = False"

definition processMOEText_catch :: "js_exception \<Rightarrow> js_exception" where
  "processMOEText_catch error =
     (if is_MOEError error then error
      else if is_abort_error error then MOEError ''MOE API request timed out'' (Some 408)
      else MOEError (''MOE API request failed: '' @ error_message error) None)"

text \<open>
  The second parameter is destructured with defaults, \<open>{ task = 'process', options = {} } = {}\<close>,
  before the body runs; destructuring \<open>null\<close> throws.
\<close>

definition processMOEText ::
  "config \<Rightarrow> string \<Rightarrow> jsval \<Rightarrow> world \<Rightarrow> (js_exception + jsval) \<times> world" where
  "processMOEText cfg text request_options w =
     (case get_prop (default_to request_options (JObj [])) ''task'' of
        Inl e \<Rightarrow> (Inl e, w)
      | Inr task_arg \<Rightarrow>
          (case get_prop (default_to request_options (JObj [])) ''options'' of
             Inl e \<Rightarrow> (Inl e, w)
           | Inr options_arg \<Rightarrow>
               (case processMOEText_try cfg text (default_to task_arg (JStr ''process''))
                       (default_to options_arg (JObj [])) w of
                  (Inl error, w1) \<Rightarrow> (Inl (processMOEText_catch error), w1)
                | (Inr v, w1) \<Rightarrow> (Inr v, w1))))"

subsection \<open>processMOERequest\<close>

text \<open>\<open>messages.filter(m => m.role === 'user')\<close>: the callback runs on the elements in
  order, and the first read of \<open>role\<close> that throws ends the call.\<close>

fun filter_role_user :: "jsval list \<Rightarrow> js_exception + jsval list" where
  "filter_role_user [] = Inr []"
| "filter_role_user (m # ms) =
     (case get_prop m ''role'' of
        Inl e \<Rightarrow> Inl e
      | Inr r \<Rightarrow>
          (case filter_role_user ms of
             Inl e \<Rightarrow> Inl e
           | Inr rest \<Rightarrow> Inr (if strict_eq_str r ''user'' then m # rest else rest)))"

fun messages_filter :: "jsval \<Rightarrow> js_exception + jsval list" where
  "messages_filter (JArr ms) = filter_role_user ms"
| "messages_filter JUndefined =
     Inl (JsError ''TypeError'' ''Cannot read properties of undefined (reading filter)'')"
| "messages_filter JNull =
     Inl (JsError ''TypeError'' ''Cannot read properties of null (reading filter)'')"
| "messages_filter v = Inl (JsError ''TypeError'' ''messages.filter is not a function'')"

text \<open>\<open>Array.prototype.pop\<close>: the last element, \<open>undefined\<close> on an empty array.\<close>

definition pop :: "jsval list \<Rightarrow> jsval" where
  "pop xs = (if xs = [] then JUndefined else last xs)"

definition fallback_result :: jsval where
  "fallback_result = JObj [(''usedFallback'', JBool True)]"

text \<open>
  The steps between the health check and the processing call: the last message whose
  role is \<open>user\<close>, the \<open>throw\<close> when there is none, and its text.
\<close>

definition lastUserText :: "jsval \<Rightarrow> js_exception + string" where
  "lastUserText messages =
     (case messages_filter messages of
        Inl e \<Rightarrow> Inl e
      | Inr users \<Rightarrow>
          if \<not> to_boolean (pop users) then Inl (JsError ''Error'' ''No user message found'')
          else extractMessageText (pop users))"

text \<open>The object returned after a successful processing call; each read of a property of
  \<open>moeResponse\<close> throws when the response body was \<open>null\<close>.\<close>

definition success_result :: "jsval \<Rightarrow> js_exception + jsval" where
  "success_result moeResponse =
     (case get_prop moeResponse ''result'' of
        Inl e \<Rightarrow> Inl e
      | Inr r \<Rightarrow>
     (case get_prop moeResponse ''expert_used'' of
        Inl e \<Rightarrow> Inl e
      | Inr eu \<Rightarrow>
     (case get_prop moeResponse ''confidence'' of
        Inl e \<Rightarrow> Inl e
      | Inr c \<Rightarrow>
     (case get_prop moeResponse ''processing_time'' of
        Inl e \<Rightarrow> Inl e
      | Inr pt \<Rightarrow>
          Inr (JObj [(''result'', r), (''expertUsed'', eu), (''confidence'', c),
                     (''processingTime'', pt), (''usedFallback'', JBool False)])))))"

text \<open>The body of the \<open>try\<close> block. The parameter \<open>options\<close> is not read.\<close>

definition processMOERequest_try ::
  "config \<Rightarrow> jsval \<Rightarrow> jsval \<Rightarrow> world \<Rightarrow> (js_exception + jsval) \<times> world" where
  "processMOERequest_try cfg messages options w =
     (case checkMOEAvailability cfg w of
        (Inl e, w1) \<Rightarrow> (Inl e, w1)
      | (Inr isMOEAvailable, w1) \<Rightarrow>
          if \<not> to_boolean isMOEAvailable then
            (Inr fallback_result,
             console_log (ConsoleWarn ''MOE API unavailable, falling back to default provider'') w1)
          else
            (case lastUserText messages of
               Inl e \<Rightarrow> (Inl e, w1)
             | Inr userText \<Rightarrow>
                 (case processMOEText cfg userText JUndefined w1 of
                    (Inl e, w2) \<Rightarrow> (Inl e, w2)
                  | (Inr moeResponse, w2) \<Rightarrow> (success_result moeResponse, w2))))"

text \<open>The \<open>catch\<close> block logs the exception and returns \<open>{ usedFallback: true }\<close>.\<close>

definition processMOERequest ::
  "config \<Rightarrow> jsval \<Rightarrow> jsval \<Rightarrow> world \<Rightarrow> (js_exception + jsval) \<times> world" where
  "processMOERequest cfg messages options w =
     (case processMOERequest_try cfg messages (default_to options (JObj [])) w of
        (Inl error, w1) \<Rightarrow>
          (Inr fallback_result, console_log (ConsoleError ''MOE processing failed:'' error) w1)
      | (Inr v, w1) \<Rightarrow> (Inr v, w1))"

text \<open>\<open>createMOEProvider(fallbackProvider)\<close> returns the object whose one method is
  \<open>processMOERequest\<close>; the method does not read \<open>fallbackProvider\<close>.\<close>

definition createMOEProvider ::
  "config \<Rightarrow> 'p \<Rightarrow> jsval \<Rightarrow> jsval \<Rightarrow> world \<Rightarrow> (js_exception + jsval) \<times> world" where
  "createMOEProvider cfg fallbackProvider = processMOERequest cfg"

subsection \<open>The middlewares of lib/ai/providers.ts\<close>

text \<open>
  Outside the test environment each of the models \<open>moe-expert-byt5\<close>,
  \<open>moe-expert-longformer\<close> and \<open>moe-auto\<close> wraps the chat model in a middleware that
  calls \<open>processMOERequest\<close> and, when the result's \<open>usedFallback\<close> is truthy, calls
  \<open>generate\<close>. The three differ in the second argument of the call only, which
  \<open>moe-auto\<close> omits.
\<close>

definition moe_middleware ::
  "config \<Rightarrow> jsval \<Rightarrow> jsval \<Rightarrow> (world \<Rightarrow> (js_exception + jsval) \<times> world) \<Rightarrow> world
     \<Rightarrow> (js_exception + jsval) \<times> world" where
  "moe_middleware cfg call_options messages generate w =
     (case processMOERequest cfg messages call_options w of
        (Inl e, w1) \<Rightarrow> (Inl e, w1)
      | (Inr moeResult, w1) \<Rightarrow>
          (case get_prop moeResult ''usedFallback'' of
             Inl e \<Rightarrow> (Inl e, w1)
           | Inr uf \<Rightarrow>
               if \<not> to_boolean uf then
                 (case get_prop moeResult ''result'' of
                    Inl e \<Rightarrow> (Inl e, w1)
                  | Inr r \<Rightarrow> (Inr (JObj [(''text'', r)]), w1))
               else generate w1))"

definition moe_expert_byt5 ::
  "config \<Rightarrow> jsval \<Rightarrow> (world \<Rightarrow> (js_exception + jsval) \<times> world) \<Rightarrow> world
     \<Rightarrow> (js_exception + jsval) \<times> world" where
  "moe_expert_byt5 cfg = moe_middleware cfg (JObj [(''expertModel'', JStr ''byt5'')])"

definition moe_expert_longformer ::
  "config \<Rightarrow> jsval \<Rightarrow> (world \<Rightarrow> (js_exception + jsval) \<times> world) \<Rightarrow> world
     \<Rightarrow> (js_exception + jsval) \<times> world" where
  "moe_expert_longformer cfg = moe_middleware cfg (JObj [(''expertModel'', JStr ''longformer'')])"

definition moe_auto ::
  "config \<Rightarrow> jsval \<Rightarrow> (world \<Rightarrow> (js_exception + jsval) \<times> world) \<Rightarrow> world
     \<Rightarrow> (js_exception + jsval) \<times> world" where
  "moe_auto cfg = moe_middleware cfg JUndefined"

subsection \<open>The availability check of the chat route\<close>



subsection \<open>Concurrent calls of checkMOEAvailability\<close>

text \<open>
  An async function runs without interruption up to its next \<open>await\<close>. A call of
  \<open>checkMOEAvailability\<close> therefore takes three steps: up to \<open>await fetch(...)\<close>, which
  sends the probe; from the settled fetch up to \<open>await response.json()\<close>; and from the
  parsed body to the returned value. \<open>AwaitingFetch k\<close> records that the call's probe is
  the \<open>k\<close>-th call sent. Steps of different calls interleave in any order, which a
  schedule, the list of the indices of the calls that take the next step, describes.
\<close>

datatype check_state =
    NotStarted
  | AwaitingFetch nat
  | AwaitingJson response
  | Finished jsval

definition check_caught :: "js_exception \<Rightarrow> world \<Rightarrow> check_state \<times> world" where
  "check_caught error w =
     (Finished (JBool False), console_log (ConsoleError ''MOE health check failed:'' error) w)"

fun advance :: "config \<Rightarrow> check_state \<Rightarrow> world \<Rightarrow> check_state \<times> world" where
  "advance cfg NotStarted w =
     (AwaitingFetch (length (sent w)), w\<lparr>sent := sent w @ [health_request cfg]\<rparr>)"
| "advance cfg (AwaitingFetch k) w =
     (case server w (health_request cfg) k of
        Rejected e \<Rightarrow> check_caught e w
      | Resolved resp \<Rightarrow>
          if \<not> ok resp then (Finished (JBool False), w) else (AwaitingJson resp, w))"
| "advance cfg (AwaitingJson resp) w =
     (case json resp of
        Inl e \<Rightarrow> check_caught e w
      | Inr data \<Rightarrow>
          (case get_prop data ''status'' of
             Inl e \<Rightarrow> check_caught e w
           | Inr st \<Rightarrow>
               if strict_eq_str st ''healthy''
               then (case get_prop data ''models_loaded'' of
                       Inl e \<Rightarrow> check_caught e w
                     | Inr ml \<Rightarrow> (Finished ml, w))
               else (Finished (JBool False), w)))"
| "advance cfg (Finished v) w = (Finished v, w)"

fun run :: "config \<Rightarrow> nat list \<Rightarrow> check_state list \<times> world \<Rightarrow> check_state list \<times> world" where
  "run cfg [] st = st"
| "run cfg (i # sched) (cs, w) =
     (if i < length cs
      then (case advance cfg (cs ! i) w of (c', w') \<Rightarrow> run cfg sched (cs[i := c'], w'))
      else run cfg sched (cs, w))"



subsection \<open>Notions used in the statements\<close>

text \<open>The string elements of an array, in order.\<close>

fun string_parts :: "jsval list \<Rightarrow> string list" where
  "string_parts [] = []"
| "string_parts (JStr s # xs) = s # string_parts xs"
| "string_parts (v # xs) = string_parts xs"

text \<open>
  The outcome of the health call made from world \<open>w\<close>, and the outcome of the
  processing call for a text when it follows that health call.
\<close>

definition health_reply :: "config \<Rightarrow> world \<Rightarrow> fetch_outcome" where
  "health_reply cfg w = server w (health_request cfg) (length (sent w))"

definition process_reply :: "config \<Rightarrow> string \<Rightarrow> world \<Rightarrow> fetch_outcome" where
  "process_reply cfg ut w =
     server w (process_request cfg ut (JStr ''process'') (JObj [])) (Suc (length (sent w)))"

text \<open>
  A call that failed: the fetch rejected (the timer aborted it, or the transport
  failed), the response has an error status, or its body is not JSON.
\<close>

definition call_failed :: "fetch_outcome \<Rightarrow> bool" where
  "call_failed outcome =
     (case outcome of Rejected e \<Rightarrow> True | Resolved resp \<Rightarrow> \<not> ok resp \<or> isl (json resp))"

text \<open>The verdict a caller draws from the health check with \<open>if (!isMOEAvailable)\<close>.\<close>

definition available :: "config \<Rightarrow> world \<Rightarrow> bool" where
  "available cfg w =
     (case fst (checkMOEAvailability cfg w) of Inl e \<Rightarrow> False | Inr v \<Rightarrow> to_boolean v)"

text \<open>The calls of the processing endpoint made between world \<open>w\<close> and a later world \<open>w'\<close>.\<close>

definition process_calls :: "config \<Rightarrow> world \<Rightarrow> world \<Rightarrow> request list" where
  "process_calls cfg w w' =
     filter (\<lambda>r. url r = MOE_API_BASE_URL cfg @ ''/process/sync'')
       (drop (length (sent w)) (sent w'))"

subsection \<open>Example configurations, servers and messages\<close>

text \<open>The module's defaults, and a world in which nothing has been sent or logged.\<close>

definition local_config :: config where
  "local_config = \<lparr>MOE_API_BASE_URL = ''http://localhost:8000'', MOE_TIMEOUT_MS = 30000\<rparr>"

definition fresh_world :: "(request \<Rightarrow> nat \<Rightarrow> fetch_outcome) \<Rightarrow> world" where
  "fresh_world srv = \<lparr>server = srv, sent = [], console = []\<rparr>"

definition http_ok :: "jsval \<Rightarrow> response" where
  "http_ok v = \<lparr>status = 200, statusText = ''OK'', json = Inr v\<rparr>"

text \<open>The health body and the processing bodies shown in MOE\_API\_Examples.md.\<close>

definition healthy_body :: jsval where
  "healthy_body =
     JObj [(''status'', JStr ''healthy''), (''models_loaded'', JBool True),
           (''cuda_available'', JBool True), (''device'', JStr ''cuda'')]"

definition routed_body :: "string \<Rightarrow> rat \<Rightarrow> jsval" where
  "routed_body expert conf =
     JObj [(''result'', JStr (''Processed by '' @ expert)), (''expert_used'', JStr expert),
           (''confidence'', JNum conf), (''processing_time'', JNum (1245 / 1000))]"

text \<open>
  A service that behaves as MOE\_API\_Examples.md describes: healthy; a processing
  request whose \<open>options.force_expert\<close> names an expert is answered by that expert with
  confidence 1; any other processing request is routed by the service itself, here to
  \<open>longformer\<close> with confidence 0.92.
\<close>

definition forced_expert_of :: "request \<Rightarrow> string option" where
  "forced_expert_of r =
     (case body r of
        None \<Rightarrow> None
      | Some b \<Rightarrow>
          (case get_prop b ''options'' of
             Inl e \<Rightarrow> None
           | Inr opts \<Rightarrow>
               (case get_prop opts ''force_expert'' of
                  Inr (JStr e) \<Rightarrow> Some e
                | _ \<Rightarrow> None)))"

definition documented_server :: "request \<Rightarrow> nat \<Rightarrow> fetch_outcome" where
  "documented_server r n =
     (if http_method r = ''GET'' then Resolved (http_ok healthy_body)
      else case forced_expert_of r of
             Some e \<Rightarrow> Resolved (http_ok (routed_body e 1))
           | None \<Rightarrow> Resolved (http_ok (routed_body ''longformer'' (92 / 100))))"

text \<open>A service that cannot be reached, and one that is healthy but whose processing
  call runs into the timeout.\<close>

definition unreachable_server :: "request \<Rightarrow> nat \<Rightarrow> fetch_outcome" where
  "unreachable_server r n = Rejected (JsError ''TypeError'' ''fetch failed'')"

definition slow_server :: "request \<Rightarrow> nat \<Rightarrow> fetch_outcome" where
  "slow_server r n =
     (if http_method r = ''GET'' then Resolved (http_ok healthy_body)
      else Rejected (DOMException ''AbortError'' ''This operation was aborted''))"

text \<open>A service whose health endpoint answers 200 with the given body.\<close>

definition health_body_server :: "jsval \<Rightarrow> request \<Rightarrow> nat \<Rightarrow> fetch_outcome" where
  "health_body_server b r n = Resolved (http_ok b)"

definition hello_messages :: jsval where
  "hello_messages =
     JArr [JObj [(''role'', JStr ''system''), (''content'', JStr ''be brief'')],
           JObj [(''role'', JStr ''user''), (''content'', JStr ''hello'')]]"

section \<open>Properties\<close>

subsection \<open>Helper lemmas\<close>

lemma map_element_string_filter:
  "map element_string (filter typeof_is_string xs) = string_parts xs"
  by (induction xs rule: string_parts.induct) simp_all

lemma get_prop_truthy:
  "to_boolean v \<Longrightarrow> \<exists>c. get_prop v name = Inr c"
  by (cases v) (simp_all split: option.splits)

lemma get_prop_defined_truthy:
  "get_prop v name = Inr c \<Longrightarrow> c \<noteq> JUndefined \<Longrightarrow> to_boolean v"
  by (cases v) simp_all

lemma string_parts_no_strings:
  "\<forall>v \<in> set xs. \<not> typeof_is_string v \<Longrightarrow> string_parts xs = []"
  by (induction xs rule: string_parts.induct) simp_all

lemma checkMOEAvailability_try_world:
  "snd (checkMOEAvailability_try cfg w) = w\<lparr>sent := sent w @ [health_request cfg]\<rparr>"
  by (simp add: checkMOEAvailability_try_def fetch_def split: fetch_outcome.splits sum.splits)

lemma checkMOEAvailability_returns:
  "\<exists>v. fst (checkMOEAvailability cfg w) = Inr v"
  by (simp add: checkMOEAvailability_def split: prod.splits sum.splits)

lemma checkMOEAvailability_sent:
  "sent (snd (checkMOEAvailability cfg w)) = sent w @ [health_request cfg]"
  using checkMOEAvailability_try_world [of cfg w]
  by (auto simp add: checkMOEAvailability_def console_log_def split: prod.splits sum.splits)

lemma checkMOEAvailability_server:
  "server (snd (checkMOEAvailability cfg w)) = server w"
  using checkMOEAvailability_try_world [of cfg w]
  by (auto simp add: checkMOEAvailability_def console_log_def split: prod.splits sum.splits)

lemma checkMOEAvailability_value:
  "fst (checkMOEAvailability cfg w) =
     (case health_reply cfg w of
        Rejected e \<Rightarrow> Inr (JBool False)
      | Resolved resp \<Rightarrow>
          if \<not> ok resp then Inr (JBool False)
          else (case json resp of
                  Inl e \<Rightarrow> Inr (JBool False)
                | Inr data \<Rightarrow>
                    (case get_prop data ''status'' of
                       Inl e \<Rightarrow> Inr (JBool False)
                     | Inr st \<Rightarrow>
                         if st = JStr ''healthy''
                         then (case get_prop data ''models_loaded'' of
                                 Inl e \<Rightarrow> Inr (JBool False) | Inr ml \<Rightarrow> Inr ml)
                         else Inr (JBool False))))"
  by (simp add: checkMOEAvailability_def checkMOEAvailability_try_def fetch_def health_reply_def
      strict_eq_str_def split: fetch_outcome.splits sum.splits)

lemma call_failed_unavailable:
  "call_failed (health_reply cfg w) \<Longrightarrow> \<not> available cfg w"
  by (auto simp add: available_def checkMOEAvailability_value call_failed_def
      split: fetch_outcome.splits sum.splits)

lemma processMOEText_default_world:
  "snd (processMOEText cfg ut JUndefined w) =
     w\<lparr>sent := sent w @ [process_request cfg ut (JStr ''process'') (JObj [])]\<rparr>"
  by (simp add: processMOEText_def processMOEText_try_def fetch_def default_to_def
      split: fetch_outcome.splits sum.splits prod.splits)

lemma processMOEText_default_fst:
  "fst (processMOEText cfg ut JUndefined w) =
     (case server w (process_request cfg ut (JStr ''process'') (JObj [])) (length (sent w)) of
        Rejected e \<Rightarrow> Inl (processMOEText_catch e)
      | Resolved resp \<Rightarrow>
          if \<not> ok resp then
            Inl (MOEError (''MOE API returned '' @ string_of_nat (status resp) @ '': ''
                            @ statusText resp) (Some (status resp)))
          else (case json resp of Inl e \<Rightarrow> Inl (processMOEText_catch e) | Inr v \<Rightarrow> Inr v))"
proof -
  have d: "get_prop (default_to JUndefined (JObj [])) name = Inr JUndefined" for name
    by (simp add: default_to_def)
  have t: "default_to JUndefined v = v" for v
    by (simp add: default_to_def)
  show ?thesis
  proof (cases "server w (process_request cfg ut (JStr ''process'') (JObj [])) (length (sent w))")
    case (Rejected e)
    then show ?thesis
      by (simp add: processMOEText_def processMOEText_try_def fetch_def d t)
  next
    case (Resolved resp)
    then show ?thesis
      by (cases "json resp")
        (simp_all add: processMOEText_def processMOEText_try_def fetch_def d t
          processMOEText_catch_def)
  qed
qed

lemma processMOERequest_returns:
  "\<exists>r. fst (processMOERequest cfg messages options w) = Inr r"
  by (simp add: processMOERequest_def split: prod.splits sum.splits)

lemma processMOERequest_options:
  "processMOERequest cfg messages options w = processMOERequest cfg messages options' w"
  by (simp add: processMOERequest_def processMOERequest_try_def)

lemma processMOERequest_unavailable:
  "\<not> available cfg w \<Longrightarrow>
   processMOERequest cfg messages options w =
     (Inr fallback_result,
      console_log (ConsoleWarn ''MOE API unavailable, falling back to default provider'')
        (snd (checkMOEAvailability cfg w)))"
  using checkMOEAvailability_returns [of cfg w]
  by (auto simp add: available_def processMOERequest_def processMOERequest_try_def
      split: prod.splits sum.splits)

lemma available_obtain:
  assumes "available cfg w"
  obtains v w1 where "checkMOEAvailability cfg w = (Inr v, w1)" and "to_boolean v"
proof -
  obtain x w1 where c: "checkMOEAvailability cfg w = (x, w1)"
    by (cases "checkMOEAvailability cfg w")
  with assms obtain v where "x = Inr v" and "to_boolean v"
    by (cases x) (simp_all add: available_def)
  with c that show ?thesis by simp
qed

lemma processMOERequest_sent:
  "sent (snd (processMOERequest cfg messages options w)) =
     (if available cfg w then
        (case lastUserText messages of
           Inl e \<Rightarrow> sent w @ [health_request cfg]
         | Inr ut \<Rightarrow> sent w @ [health_request cfg,
                                process_request cfg ut (JStr ''process'') (JObj [])])
      else sent w @ [health_request cfg])"
proof (cases "available cfg w")
  case False
  then show ?thesis
    by (simp add: processMOERequest_unavailable console_log_def checkMOEAvailability_sent)
next
  case True
  then obtain v w1 where c: "checkMOEAvailability cfg w = (Inr v, w1)" and v: "to_boolean v"
    by (rule available_obtain)
  have s1: "sent w1 = sent w @ [health_request cfg]"
    using checkMOEAvailability_sent [of cfg w] c by simp
  show ?thesis
  proof (cases "lastUserText messages")
    case (Inl e)
    then show ?thesis
      using True c v s1
      by (simp add: processMOERequest_def processMOERequest_try_def console_log_def)
  next
    case (Inr ut)
    have "sent (snd (processMOEText cfg ut JUndefined w1)) =
          sent w1 @ [process_request cfg ut (JStr ''process'') (JObj [])]"
      by (simp add: processMOEText_default_world)
    then show ?thesis
      using True c v s1 Inr
      by (auto simp add: processMOERequest_def processMOERequest_try_def console_log_def
          split: prod.splits sum.splits)
  qed
qed

lemma processMOERequest_result:
  "fst (processMOERequest cfg messages options w) =
     (if available cfg w then
        (case lastUserText messages of
           Inl e \<Rightarrow> Inr fallback_result
         | Inr ut \<Rightarrow>
             (case process_reply cfg ut w of
                Rejected e \<Rightarrow> Inr fallback_result
              | Resolved resp \<Rightarrow>
                  if \<not> ok resp then Inr fallback_result
                  else (case json resp of
                          Inl e \<Rightarrow> Inr fallback_result
                        | Inr data \<Rightarrow>
                            (case success_result data of
                               Inl e \<Rightarrow> Inr fallback_result
                             | Inr r \<Rightarrow> Inr r))))
      else Inr fallback_result)"
proof (cases "available cfg w")
  case False
  then show ?thesis by (simp add: processMOERequest_unavailable)
next
  case True
  then obtain v w1 where c: "checkMOEAvailability cfg w = (Inr v, w1)" and v: "to_boolean v"
    by (rule available_obtain)
  have s1: "sent w1 = sent w @ [health_request cfg]" and s2: "server w1 = server w"
    using checkMOEAvailability_sent [of cfg w] checkMOEAvailability_server [of cfg w] c
    by simp_all
  show ?thesis
  proof (cases "lastUserText messages")
    case (Inl e)
    then show ?thesis
      using True c v
      by (simp add: processMOERequest_def processMOERequest_try_def)
  next
    case (Inr ut)
    have "fst (processMOEText cfg ut JUndefined w1) =
     (case process_reply cfg ut w of
        Rejected e \<Rightarrow> Inl (processMOEText_catch e)
      | Resolved resp \<Rightarrow>
          if \<not> ok resp then
            Inl (MOEError (''MOE API returned '' @ string_of_nat (status resp) @ '': ''
                            @ statusText resp) (Some (status resp)))
          else (case json resp of Inl e \<Rightarrow> Inl (processMOEText_catch e) | Inr v \<Rightarrow> Inr v))"
      by (simp add: processMOEText_default_fst s1 s2 process_reply_def)
    then show ?thesis
      using True c v Inr
      by (auto simp add: processMOERequest_def processMOERequest_try_def
          split: prod.splits sum.splits fetch_outcome.splits)
  qed
qed

lemma success_result_usedFallback:
  "success_result data = Inr r \<Longrightarrow> get_prop r ''usedFallback'' = Inr (JBool False)"
  by (auto simp add: success_result_def split: sum.splits)

lemma fallback_result_props:
  "get_prop fallback_result ''usedFallback'' = Inr (JBool True)"
  "get_prop fallback_result ''expertUsed'' = Inr JUndefined"
  "get_prop fallback_result ''confidence'' = Inr JUndefined"
  "get_prop fallback_result ''error'' = Inr JUndefined"
  "get_prop fallback_result ''result'' = Inr JUndefined"
  by (simp_all add: fallback_result_def)

lemma health_url_not_process:
  "url (health_request cfg) \<noteq> MOE_API_BASE_URL cfg @ ''/process/sync''"
  by (simp add: health_request_def)

lemma process_url:
  "url (process_request cfg ut task options) = MOE_API_BASE_URL cfg @ ''/process/sync''"
  by (simp add: process_request_def)

lemma process_calls_of_request:
  "process_calls cfg w (snd (processMOERequest cfg messages options w)) =
     (if available cfg w then
        (case lastUserText messages of
           Inl e \<Rightarrow> []
         | Inr ut \<Rightarrow> [process_request cfg ut (JStr ''process'') (JObj [])])
      else [])"
  by (simp add: process_calls_def processMOERequest_sent health_url_not_process process_url
      split: sum.splits)

lemma checkMOEAvailability_console:
  "console (snd (checkMOEAvailability cfg w)) =
     (case health_reply cfg w of
        Rejected e \<Rightarrow> console w @ [ConsoleError ''MOE health check failed:'' e]
      | Resolved resp \<Rightarrow>
          if \<not> ok resp then console w
          else (case json resp of
                  Inl e \<Rightarrow> console w @ [ConsoleError ''MOE health check failed:'' e]
                | Inr data \<Rightarrow>
                    (case get_prop data ''status'' of
                       Inl e \<Rightarrow> console w @ [ConsoleError ''MOE health check failed:'' e]
                     | Inr st \<Rightarrow>
                         if st = JStr ''healthy''
                         then (case get_prop data ''models_loaded'' of
                                 Inl e \<Rightarrow> console w @ [ConsoleError ''MOE health check failed:'' e]
                               | Inr ml \<Rightarrow> console w)
                         else console w)))"
  by (simp add: checkMOEAvailability_def checkMOEAvailability_try_def fetch_def health_reply_def
      strict_eq_str_def console_log_def split: fetch_outcome.splits sum.splits)

lemma checkMOEAvailability_twice:
 "sent (snd (checkMOEAvailability cfg (snd (checkMOEAvailability cfg w))))
        = sent w @ [health_request cfg, health_request cfg]"
  by (simp add: checkMOEAvailability_sent)


lemma moe_middleware_options:
  "moe_middleware cfg options messages generate w = moe_middleware cfg options' messages generate w"
  by (simp add: moe_middleware_def processMOERequest_options [of cfg messages options w options'])

subsection \<open>Interleaved health checks\<close>


lemma advance_server: "server (snd (advance cfg c w)) = server w"
  by (cases c) (auto simp add: check_caught_def console_log_def
      split: fetch_outcome.splits sum.splits)






text \<open>A call that runs alone takes its three steps and ends as the sequential function does.\<close>

lemma run_alone:
  "checkMOEAvailability cfg w = (Inr v, w') \<Longrightarrow>
   run cfg [0, 0, 0] ([NotStarted], w) = ([Finished v], w')"
  by (auto simp add: checkMOEAvailability_def checkMOEAvailability_try_def fetch_def
      check_caught_def console_log_def
      split: fetch_outcome.splits sum.splits prod.splits if_splits)

subsection \<open>The examples evaluated\<close>

lemma lastUserText_hello: "lastUserText hello_messages = Inr ''hello''"
  by (simp add: lastUserText_def hello_messages_def strict_eq_str_def pop_def
      extractMessageText_def)

lemma unreachable_health_failed:
  "call_failed (health_reply local_config (fresh_world unreachable_server))"
  by (simp add: call_failed_def health_reply_def fresh_world_def unreachable_server_def)

lemma unreachable_unavailable: "\<not> available local_config (fresh_world unreachable_server)"
  by (simp add: call_failed_unavailable unreachable_health_failed)

lemma slow_available: "available local_config (fresh_world slow_server)"
  by (simp add: available_def checkMOEAvailability_value health_reply_def fresh_world_def
      slow_server_def health_request_def http_ok_def ok_def healthy_body_def)

lemma slow_process_failed:
  "call_failed (process_reply local_config ''hello'' (fresh_world slow_server))"
  by (simp add: call_failed_def process_reply_def fresh_world_def slow_server_def
      process_request_def)

lemma documented_available: "available local_config (fresh_world documented_server)"
  by (simp add: available_def checkMOEAvailability_value health_reply_def fresh_world_def
      documented_server_def health_request_def http_ok_def ok_def healthy_body_def)


lemma http_ok_props: "ok (http_ok v)" "json (http_ok v) = Inr v"
  by (simp_all add: http_ok_def ok_def)


lemma health_body_reply:
  "health_reply cfg (fresh_world (health_body_server b)) = Resolved (http_ok b)"
  by (simp add: health_reply_def fresh_world_def health_body_server_def)

text \<open>
  With a healthy status the value returned is the body's \<open>models_loaded\<close> itself: a
  number, a string or \<open>undefined\<close> comes back as it is, and the callers test its
  truthiness.
\<close>

lemma checkMOEAvailability_returns_operand:
  "fst (checkMOEAvailability cfg (fresh_world (health_body_server
      (JObj [(''status'', JStr ''healthy''), (''models_loaded'', ml)])))) = Inr ml"
  by (simp add: checkMOEAvailability_value health_body_reply http_ok_props)

lemma checkMOEAvailability_missing_flag:
  "fst (checkMOEAvailability cfg (fresh_world (health_body_server
      (JObj [(''status'', JStr ''healthy'')])))) = Inr JUndefined"
  by (simp add: checkMOEAvailability_value health_body_reply http_ok_props)


lemma fresh_world_props:
  "sent (fresh_world srv) = []" "console (fresh_world srv) = []" "server (fresh_world srv) = srv"
  by (simp_all add: fresh_world_def)

lemma documented_process_reply:
  "process_reply local_config ''hello'' (fresh_world documented_server)
     = Resolved (http_ok (routed_body ''longformer'' (92 / 100)))"
  by (simp add: process_reply_def fresh_world_def documented_server_def process_request_def
      forced_expert_of_def)

lemma success_result_routed:
  "success_result (routed_body e c) =
     Inr (JObj [(''result'', JStr (''Processed by '' @ e)), (''expertUsed'', JStr e),
                (''confidence'', JNum c), (''processingTime'', JNum (1245 / 1000)),
                (''usedFallback'', JBool False)])"
  by (simp add: success_result_def routed_body_def)

lemma documented_request_result:
  "fst (processMOERequest local_config hello_messages options (fresh_world documented_server)) =
     Inr (JObj [(''result'', JStr ''Processed by longformer''), (''expertUsed'', JStr ''longformer''),
                (''confidence'', JNum (92 / 100)), (''processingTime'', JNum (1245 / 1000)),
                (''usedFallback'', JBool False)])"
  by (simp add: processMOERequest_result documented_available lastUserText_hello
      documented_process_reply http_ok_props success_result_routed)

lemma documented_request_sent:
  "sent (snd (processMOERequest local_config hello_messages options (fresh_world documented_server)))
     = [health_request local_config,
        process_request local_config ''hello'' (JStr ''process'') (JObj [])]"
  by (simp add: processMOERequest_sent documented_available lastUserText_hello fresh_world_props)




subsection \<open>The claims\<close>

text \<open>
  C10. \<open>extractMessageText\<close> returns a string for every input and never throws. A falsy
  message, a message without a \<open>content\<close> property, a falsy content and a content that
  is neither a string nor an array give the empty string; a string content is returned
  unchanged; an array content gives its string elements, in order, joined by single
  spaces, the other elements being dropped, so an array without a string element gives
  the empty string.
\<close>

theorem extractMessageText_total_and_cases:
  "(\<exists>s. extractMessageText message = Inr s)
   \<and> (message \<in> {JUndefined, JNull} \<longrightarrow> extractMessageText message = Inr [])
   \<and> (get_prop message ''content'' = Inr JUndefined \<longrightarrow> extractMessageText message = Inr [])
   \<and> (\<forall>c. get_prop message ''content'' = Inr c \<and> \<not> typeof_is_string c \<and> \<not> isArray c
          \<longrightarrow> extractMessageText message = Inr [])
   \<and> (\<forall>s. get_prop message ''content'' = Inr (JStr s) \<longrightarrow> extractMessageText message = Inr s)
   \<and> (\<forall>parts. get_prop message ''content'' = Inr (JArr parts)
          \<longrightarrow> extractMessageText message = Inr (join_strings '' '' (string_parts parts)))
   \<and> (\<forall>parts. get_prop message ''content'' = Inr (JArr parts)
          \<and> (\<forall>v \<in> set parts. \<not> typeof_is_string v)
          \<longrightarrow> extractMessageText message = Inr [])"
proof (intro conjI allI impI)
  show "\<exists>s. extractMessageText message = Inr s"
  proof (cases "to_boolean message")
    case False
    then show ?thesis by (simp add: extractMessageText_def)
  next
    case True
    then obtain c where c: "get_prop message ''content'' = Inr c"
      using get_prop_truthy by blast
    show ?thesis
      by (cases c) (simp_all add: extractMessageText_def c True)
  qed
next
  assume "message \<in> {JUndefined, JNull}"
  then show "extractMessageText message = Inr []"
    by (auto simp: extractMessageText_def)
next
  assume "get_prop message ''content'' = Inr JUndefined"
  then show "extractMessageText message = Inr []"
    by (simp add: extractMessageText_def)
next
  fix c
  assume "get_prop message ''content'' = Inr c \<and> \<not> typeof_is_string c \<and> \<not> isArray c"
  then show "extractMessageText message = Inr []"
    by (simp add: extractMessageText_def)
next
  fix s
  assume "get_prop message ''content'' = Inr (JStr s)"
  then show "extractMessageText message = Inr s"
    using get_prop_defined_truthy [of message "''content''" "JStr s"]
    by (simp add: extractMessageText_def)
next
  fix parts
  assume "get_prop message ''content'' = Inr (JArr parts)"
  then show "extractMessageText message = Inr (join_strings '' '' (string_parts parts))"
    using get_prop_defined_truthy [of message "''content''" "JArr parts"]
    by (simp add: extractMessageText_def js_join_def map_element_string_filter)
next
  fix parts
  assume "get_prop message ''content'' = Inr (JArr parts)
          \<and> (\<forall>v \<in> set parts. \<not> typeof_is_string v)"
  then show "extractMessageText message = Inr []"
    using get_prop_defined_truthy [of message "''content''" "JArr parts"]
    by (simp add: extractMessageText_def js_join_def map_element_string_filter
        string_parts_no_strings)
qed

theorem extractMessageText_witness:
  "extractMessageText JNull = Inr []
   \<and> extractMessageText (JObj [(''role'', JStr ''user'')]) = Inr []
   \<and> extractMessageText (JObj [(''content'', JNum 5)]) = Inr []
   \<and> extractMessageText (JObj [(''content'', JStr ''hello'')]) = Inr ''hello''
   \<and> extractMessageText (JObj [(''content'',
         JArr [JStr ''a'', JObj [(''type'', JStr ''image'')], JStr ''b''])]) = Inr ''a b''
   \<and> extractMessageText (JObj [(''content'',
         JArr [JObj [(''type'', JStr ''text''), (''text'', JStr ''x'')]])]) = Inr []"
proof -
  have h1: "JNull \<in> {JUndefined, JNull}" by simp
  have h2: "get_prop (JObj [(''role'', JStr ''user'')]) ''content'' = Inr JUndefined" by simp
  have h3: "get_prop (JObj [(''content'', JNum 5)]) ''content'' = Inr (JNum 5)
            \<and> \<not> typeof_is_string (JNum 5) \<and> \<not> isArray (JNum 5)" by simp
  have h4: "get_prop (JObj [(''content'', JStr ''hello'')]) ''content'' = Inr (JStr ''hello'')"
    by simp
  have h5: "get_prop (JObj [(''content'',
         JArr [JStr ''a'', JObj [(''type'', JStr ''image'')], JStr ''b''])]) ''content''
       = Inr (JArr [JStr ''a'', JObj [(''type'', JStr ''image'')], JStr ''b''])" by simp
  have h6: "get_prop (JObj [(''content'',
         JArr [JObj [(''type'', JStr ''text''), (''text'', JStr ''x'')]])]) ''content''
       = Inr (JArr [JObj [(''type'', JStr ''text''), (''text'', JStr ''x'')]])
       \<and> (\<forall>v \<in> set [JObj [(''type'', JStr ''text''), (''text'', JStr ''x'')]].
             \<not> typeof_is_string v)"
    by simp
  show ?thesis
    using extractMessageText_total_and_cases [of JNull] h1
      extractMessageText_total_and_cases [of "JObj [(''role'', JStr ''user'')]"] h2
      extractMessageText_total_and_cases [of "JObj [(''content'', JNum 5)]"] h3
      extractMessageText_total_and_cases [of "JObj [(''content'', JStr ''hello'')]"] h4
      extractMessageText_total_and_cases [of "JObj [(''content'',
         JArr [JStr ''a'', JObj [(''type'', JStr ''image'')], JStr ''b''])]"] h5
      extractMessageText_total_and_cases [of "JObj [(''content'',
         JArr [JObj [(''type'', JStr ''text''), (''text'', JStr ''x'')]])]"] h6
    by simp
qed

text \<open>
  C1. For every messages value, options value and world, \<open>processMOERequest\<close> returns
  an object and throws nothing; the object's \<open>usedFallback\<close> is a boolean. When the
  health call failed (timeout, transport error, error status, body that is not JSON) or
  the health verdict is negative, and when the processing call for the last user text
  failed in one of these ways, the object returned is \<open>{ usedFallback: true }\<close>.
\<close>

theorem processMOERequest_never_throws:
  "(\<exists>r w'. processMOERequest cfg messages options w = (Inr r, w'))
   \<and> (\<forall>r. fst (processMOERequest cfg messages options w) = Inr r \<longrightarrow>
          get_prop r ''usedFallback'' = Inr (JBool True)
          \<or> get_prop r ''usedFallback'' = Inr (JBool False))
   \<and> (call_failed (health_reply cfg w) \<longrightarrow>
          fst (processMOERequest cfg messages options w) = Inr fallback_result)
   \<and> (\<not> available cfg w \<longrightarrow>
          fst (processMOERequest cfg messages options w) = Inr fallback_result)
   \<and> (\<forall>ut. lastUserText messages = Inr ut \<and> call_failed (process_reply cfg ut w) \<longrightarrow>
          fst (processMOERequest cfg messages options w) = Inr fallback_result)
   \<and> get_prop fallback_result ''usedFallback'' = Inr (JBool True)"
proof (intro conjI allI impI)
  show "\<exists>r w'. processMOERequest cfg messages options w = (Inr r, w')"
    using processMOERequest_returns [of cfg messages options w]
    by (metis prod.collapse)
next
  fix r
  assume "fst (processMOERequest cfg messages options w) = Inr r"
  then show "get_prop r ''usedFallback'' = Inr (JBool True)
          \<or> get_prop r ''usedFallback'' = Inr (JBool False)"
    by (auto simp add: processMOERequest_result fallback_result_props
        success_result_usedFallback split: if_splits sum.splits fetch_outcome.splits)
next
  assume "call_failed (health_reply cfg w)"
  then show "fst (processMOERequest cfg messages options w) = Inr fallback_result"
    by (simp add: processMOERequest_result call_failed_unavailable)
next
  assume "\<not> available cfg w"
  then show "fst (processMOERequest cfg messages options w) = Inr fallback_result"
    by (simp add: processMOERequest_result)
next
  fix ut
  assume "lastUserText messages = Inr ut \<and> call_failed (process_reply cfg ut w)"
  then show "fst (processMOERequest cfg messages options w) = Inr fallback_result"
    by (auto simp add: processMOERequest_result call_failed_def
        split: fetch_outcome.splits sum.splits)
next
  show "get_prop fallback_result ''usedFallback'' = Inr (JBool True)"
    by (simp add: fallback_result_props)
qed

theorem processMOERequest_never_throws_witness:
  "call_failed (health_reply local_config (fresh_world unreachable_server))
   \<and> fst (processMOERequest local_config hello_messages JUndefined
            (fresh_world unreachable_server)) = Inr fallback_result
   \<and> lastUserText hello_messages = Inr ''hello''
   \<and> call_failed (process_reply local_config ''hello'' (fresh_world slow_server))
   \<and> fst (processMOERequest local_config hello_messages JUndefined
            (fresh_world slow_server)) = Inr fallback_result"
proof -
  have h1: "call_failed (health_reply local_config (fresh_world unreachable_server))"
    by (rule unreachable_health_failed)
  have h2: "lastUserText hello_messages = Inr ''hello''
      \<and> call_failed (process_reply local_config ''hello'' (fresh_world slow_server))"
    by (simp add: lastUserText_hello slow_process_failed)
  show ?thesis
    using h1 h2
      processMOERequest_never_throws [of local_config hello_messages JUndefined
        "fresh_world unreachable_server"]
      processMOERequest_never_throws [of local_config hello_messages JUndefined
        "fresh_world slow_server"]
    by blast
qed

text \<open>
  C5. When the health check reports the service unusable, \<open>processMOERequest\<close> sends
  no request to the processing endpoint: the health probe is the only call made, and
  the result is \<open>{ usedFallback: true }\<close>.
\<close>

theorem no_processing_call_when_unavailable:
  "\<not> available cfg w \<Longrightarrow>
     process_calls cfg w (snd (processMOERequest cfg messages options w)) = []
     \<and> sent (snd (processMOERequest cfg messages options w)) = sent w @ [health_request cfg]
     \<and> fst (processMOERequest cfg messages options w) = Inr fallback_result
     \<and> get_prop fallback_result ''usedFallback'' = Inr (JBool True)"
  by (simp add: process_calls_of_request processMOERequest_sent processMOERequest_result
      fallback_result_props)

theorem no_processing_call_when_unavailable_witness:
  "\<not> available local_config (fresh_world unreachable_server)
   \<and> process_calls local_config (fresh_world unreachable_server)
        (snd (processMOERequest local_config hello_messages JUndefined
               (fresh_world unreachable_server))) = []
   \<and> sent (snd (processMOERequest local_config hello_messages JUndefined
               (fresh_world unreachable_server))) = [health_request local_config]"
proof -
  have h: "\<not> available local_config (fresh_world unreachable_server)"
    by (rule unreachable_unavailable)
  have s: "sent (fresh_world unreachable_server) = []"
    by (simp add: fresh_world_def)
  show ?thesis
    using h s no_processing_call_when_unavailable [OF h, of hello_messages JUndefined]
    by simp
qed

text \<open>
  C8. One call of \<open>processMOERequest\<close> sends at most two requests to the processing
  endpoint (in fact at most one: there is no retry), and when that request fails the
  result is \<open>{ usedFallback: true }\<close> with no further request.
\<close>

theorem at_most_two_processing_calls:
  "length (process_calls cfg w (snd (processMOERequest cfg messages options w))) \<le> 2
   \<and> length (process_calls cfg w (snd (processMOERequest cfg messages options w))) \<le> 1
   \<and> (\<forall>ut. available cfg w \<and> lastUserText messages = Inr ut
            \<and> call_failed (process_reply cfg ut w) \<longrightarrow>
          process_calls cfg w (snd (processMOERequest cfg messages options w))
            = [process_request cfg ut (JStr ''process'') (JObj [])]
          \<and> fst (processMOERequest cfg messages options w) = Inr fallback_result)"
proof (intro conjI allI impI)
  show "length (process_calls cfg w (snd (processMOERequest cfg messages options w))) \<le> 2"
    by (simp add: process_calls_of_request split: sum.splits)
next
  show "length (process_calls cfg w (snd (processMOERequest cfg messages options w))) \<le> 1"
    by (simp add: process_calls_of_request split: sum.splits)
next
  fix ut
  assume a: "available cfg w \<and> lastUserText messages = Inr ut
            \<and> call_failed (process_reply cfg ut w)"
  then show "process_calls cfg w (snd (processMOERequest cfg messages options w))
            = [process_request cfg ut (JStr ''process'') (JObj [])]"
    by (simp add: process_calls_of_request)
  from a show "fst (processMOERequest cfg messages options w) = Inr fallback_result"
    by (auto simp add: processMOERequest_result call_failed_def
        split: fetch_outcome.splits sum.splits)
qed

theorem at_most_two_processing_calls_witness:
  "available local_config (fresh_world slow_server)
   \<and> lastUserText hello_messages = Inr ''hello''
   \<and> call_failed (process_reply local_config ''hello'' (fresh_world slow_server))
   \<and> process_calls local_config (fresh_world slow_server)
        (snd (processMOERequest local_config hello_messages JUndefined (fresh_world slow_server)))
      = [process_request local_config ''hello'' (JStr ''process'') (JObj [])]
   \<and> fst (processMOERequest local_config hello_messages JUndefined (fresh_world slow_server))
      = Inr fallback_result"
proof -
  have h: "available local_config (fresh_world slow_server)
   \<and> lastUserText hello_messages = Inr ''hello''
   \<and> call_failed (process_reply local_config ''hello'' (fresh_world slow_server))"
    by (simp add: slow_available lastUserText_hello slow_process_failed)
  show ?thesis
    using h at_most_two_processing_calls [of local_config "fresh_world slow_server"
        hello_messages JUndefined]
    by blast
qed



text \<open>
  C4, as the code has it. When the health check reports the service unusable, the
  object returned is exactly \<open>{ usedFallback: true }\<close>: every other property, among
  them \<open>expertUsed\<close>, \<open>confidence\<close> and \<open>error\<close>, reads as \<open>undefined\<close>. The failure
  goes to the console only: a warning, preceded by the exception of a probe that threw.
\<close>

theorem unavailable_result_is_bare_fallback:
  "\<not> available cfg w \<Longrightarrow>
     fst (processMOERequest cfg messages options w) = Inr (JObj [(''usedFallback'', JBool True)])
     \<and> (\<forall>name. name \<noteq> ''usedFallback'' \<longrightarrow>
           get_prop (JObj [(''usedFallback'', JBool True)]) name = Inr JUndefined)
     \<and> console (snd (processMOERequest cfg messages options w)) =
         console (snd (checkMOEAvailability cfg w))
           @ [ConsoleWarn ''MOE API unavailable, falling back to default provider'']
     \<and> (\<forall>e. health_reply cfg w = Rejected e \<longrightarrow>
           console (snd (processMOERequest cfg messages options w)) =
             console w @ [ConsoleError ''MOE health check failed:'' e,
                          ConsoleWarn ''MOE API unavailable, falling back to default provider''])"
  by (simp add: processMOERequest_unavailable fallback_result_def console_log_def
      checkMOEAvailability_console)

theorem unavailable_result_is_bare_fallback_witness:
  "\<not> available local_config (fresh_world unreachable_server)
   \<and> fst (processMOERequest local_config hello_messages JUndefined (fresh_world unreachable_server))
       = Inr (JObj [(''usedFallback'', JBool True)])
   \<and> ''expertUsed'' \<noteq> ''usedFallback''
   \<and> get_prop (JObj [(''usedFallback'', JBool True)]) ''expertUsed'' = Inr JUndefined
   \<and> health_reply local_config (fresh_world unreachable_server)
       = Rejected (JsError ''TypeError'' ''fetch failed'')
   \<and> console (snd (processMOERequest local_config hello_messages JUndefined
         (fresh_world unreachable_server))) =
       [ConsoleError ''MOE health check failed:'' (JsError ''TypeError'' ''fetch failed''),
        ConsoleWarn ''MOE API unavailable, falling back to default provider'']"
proof -
  have h1: "\<not> available local_config (fresh_world unreachable_server)"
    by (rule unreachable_unavailable)
  have h2: "''expertUsed'' \<noteq> ''usedFallback''" by simp
  have h3: "health_reply local_config (fresh_world unreachable_server)
       = Rejected (JsError ''TypeError'' ''fetch failed'')"
    by (simp add: health_reply_def fresh_world_def unreachable_server_def)
  have c: "console (fresh_world unreachable_server) = []"
    by (simp add: fresh_world_def)
  note t = unavailable_result_is_bare_fallback [OF h1, of hello_messages JUndefined]
  have c1: "fst (processMOERequest local_config hello_messages JUndefined (fresh_world unreachable_server))
       = Inr (JObj [(''usedFallback'', JBool True)])"
    using t by (rule conjunct1)
  have c2: "get_prop (JObj [(''usedFallback'', JBool True)]) ''expertUsed'' = Inr JUndefined"
    using t [THEN conjunct2, THEN conjunct1, THEN spec] h2 by (rule mp)
  have c3: "console (snd (processMOERequest local_config hello_messages JUndefined
         (fresh_world unreachable_server))) =
       console (fresh_world unreachable_server) @
       [ConsoleError ''MOE health check failed:'' (JsError ''TypeError'' ''fetch failed''),
        ConsoleWarn ''MOE API unavailable, falling back to default provider'']"
    using t [THEN conjunct2, THEN conjunct2, THEN conjunct2, THEN spec] h3 by (rule mp)
  show ?thesis
    using h1 c1 h2 c2 h3 c3 [unfolded c] by simp
qed

text \<open>
  The statement of C4 as written asks for \<open>expertUsed = "fallback"\<close> and
  \<open>confidence = 0\<close>; with an unreachable service neither is there.
\<close>

theorem unavailable_result_has_no_expertUsed:
  "fst (processMOERequest local_config hello_messages JUndefined (fresh_world unreachable_server))
     = Inr (JObj [(''usedFallback'', JBool True)])
   \<and> get_prop (JObj [(''usedFallback'', JBool True)]) ''expertUsed'' \<noteq> Inr (JStr ''fallback'')
   \<and> get_prop (JObj [(''usedFallback'', JBool True)]) ''confidence'' \<noteq> Inr (JNum 0)
   \<and> get_prop (JObj [(''usedFallback'', JBool True)]) ''error'' = Inr JUndefined"
  by (simp add: processMOERequest_result unreachable_unavailable fallback_result_def)




text \<open>
  C2, as the code has it. A request that names a forced expert, under the key the
  middlewares use (\<open>expertModel\<close>) or the one the service documents
  (\<open>force_expert\<close>), surfaces no error whatever the id is: the module has no registry
  to check it against, every failure is absorbed, and the caller gets a returned object
  whose \<open>usedFallback\<close> is a boolean.
\<close>

theorem forced_expert_never_surfaces_error:
  "(\<exists>r w'. processMOERequest cfg messages (JObj [(''expertModel'', JStr e)]) w = (Inr r, w')
       \<and> (\<exists>b. get_prop r ''usedFallback'' = Inr (JBool b)))
   \<and> (\<exists>r w'. processMOERequest cfg messages (JObj [(''force_expert'', JStr e)]) w = (Inr r, w')
       \<and> (\<exists>b. get_prop r ''usedFallback'' = Inr (JBool b)))"
proof -
  have "\<exists>r w'. processMOERequest cfg messages options w = (Inr r, w')
       \<and> (\<exists>b. get_prop r ''usedFallback'' = Inr (JBool b))" for options
  proof -
    obtain r where r: "fst (processMOERequest cfg messages options w) = Inr r"
      using processMOERequest_returns by blast
    then have "\<exists>b. get_prop r ''usedFallback'' = Inr (JBool b)"
      by (auto simp add: processMOERequest_result fallback_result_props
          success_result_usedFallback split: if_splits sum.splits fetch_outcome.splits)
    with r show ?thesis
      by (metis prod.collapse)
  qed
  then show ?thesis by blast
qed

text \<open>
  The statement of C2 as written fails: with an expert id that no registry could hold,
  the call returns a successful result.
\<close>

theorem unknown_expert_not_surfaced:
  "fst (processMOERequest local_config hello_messages
          (JObj [(''expertModel'', JStr ''no-such-expert'')]) (fresh_world documented_server)) =
     Inr (JObj [(''result'', JStr ''Processed by longformer''), (''expertUsed'', JStr ''longformer''),
                (''confidence'', JNum (92 / 100)), (''processingTime'', JNum (1245 / 1000)),
                (''usedFallback'', JBool False)])"
  by (rule documented_request_result)

text \<open>
  C3. The middleware of \<open>moe-expert-byt5\<close> passes \<open>{ expertModel: 'byt5' }\<close>, and
  \<open>processMOERequest\<close> drops it: the processing request carries \<open>options: {}\<close>, so a
  service that honours \<open>force_expert\<close> (it would answer with \<open>byt5\<close> and confidence 1)
  routes by itself, here to \<open>longformer\<close> with confidence 0.92, and the result has no
  \<open>forced\<close> field. The middlewares of the two expert models behave as the one of
  \<open>moe-auto\<close>.
\<close>

theorem forced_expert_not_forwarded:
  "fst (processMOERequest local_config hello_messages
          (JObj [(''expertModel'', JStr ''byt5'')]) (fresh_world documented_server)) =
     Inr (JObj [(''result'', JStr ''Processed by longformer''), (''expertUsed'', JStr ''longformer''),
                (''confidence'', JNum (92 / 100)), (''processingTime'', JNum (1245 / 1000)),
                (''usedFallback'', JBool False)])
   \<and> sent (snd (processMOERequest local_config hello_messages
          (JObj [(''expertModel'', JStr ''byt5'')]) (fresh_world documented_server)))
     = [health_request local_config,
        process_request local_config ''hello'' (JStr ''process'') (JObj [])]
   \<and> documented_server (process_request local_config ''hello'' (JStr ''process'')
          (JObj [(''force_expert'', JStr ''byt5'')])) 1
     = Resolved (http_ok (routed_body ''byt5'' 1))
   \<and> moe_expert_byt5 cfg messages generate w = moe_auto cfg messages generate w
   \<and> moe_expert_longformer cfg messages generate w = moe_auto cfg messages generate w"
proof (intro conjI)
  show "documented_server (process_request local_config ''hello'' (JStr ''process'')
          (JObj [(''force_expert'', JStr ''byt5'')])) 1
     = Resolved (http_ok (routed_body ''byt5'' 1))"
    by (simp add: documented_server_def process_request_def forced_expert_of_def)
next
  show "moe_expert_byt5 cfg messages generate w = moe_auto cfg messages generate w"
    unfolding moe_expert_byt5_def moe_auto_def by (rule moe_middleware_options)
next
  show "moe_expert_longformer cfg messages generate w = moe_auto cfg messages generate w"
    unfolding moe_expert_longformer_def moe_auto_def by (rule moe_middleware_options)
qed (simp_all add: documented_request_result documented_request_sent)




end
